theory Spec2Isabelle
  imports Main
begin

section \<open>The chat cog of the Discord bot\<close>

text \<open>
  This theory embeds \<^verbatim>\<open>src/chatbot/discord_bot/cogs/chat_cog/chat_cog.py\<close>: the
  \<^verbatim>\<open>Chat\<close> model, the registry \<^verbatim>\<open>ChatCog._active_threads\<close> and the handlers
  \<^verbatim>\<open>chat\<close>, \<^verbatim>\<open>on_raw_reaction_add\<close>, \<^verbatim>\<open>on_message\<close> with their helpers.

  The cog talks to collaborators that are not part of the repository: the Discord
  client (sending, editing and fetching messages, creating threads, the typing
  indicator), the language-model chain behind the assistant, the logger and the
  clock. Every such call is recorded, in program order, in a trace; what the call
  does (raise or return, and what it returns) is read from an environment, indexed
  by the position of the call in the trace. The handlers are deterministic functions
  of the environment and the state.
\<close>

subsection \<open>Exceptions\<close>

text \<open>
  \<open>IndexError\<close> is raised by indexing an empty string, \<open>AttributeError\<close> by calling a
  method on \<^verbatim>\<open>None\<close>; \<open>External msg\<close> is any exception raised by a collaborator, with
  \<open>msg\<close> its \<^verbatim>\<open>str(e)\<close>. All of them are subclasses of \<^verbatim>\<open>Exception\<close>.
\<close>

datatype exn = IndexError | AttributeError | External string

fun str_exn :: "exn \<Rightarrow> string" where
  "str_exn IndexError = ''string index out of range''"
| "str_exn AttributeError =
     CHR 0x27 # ''NoneType' object has no attribute 'fetch_message'' @ [CHR 0x27]"
| "str_exn (External msg) = msg"

subsection \<open>Platform objects\<close>

record thread =
  thread_id :: int
  owner_id :: int
  message_count :: int

text \<open>
  \<^verbatim>\<open>message.channel.__class__ == discord.Thread\<close> is a case distinction on the channel.
\<close>

datatype channel = Thread thread | TextChannel int

record message =
  message_id :: int
  author_id :: int
  author_str :: string
  content :: string
  channel :: channel

text \<open>The fields of \<^verbatim>\<open>discord.RawReactionActionEvent\<close> that the cog reads.\<close>

record payload =
  user_id :: int
  emoji_name :: string
  channel_id :: int
  payload_message_id :: int

text \<open>The fields of \<^verbatim>\<open>discord.ApplicationContext\<close> that the cog reads.\<close>

record ctx =
  ctx_channel_id :: int
  ctx_user_str :: string

subsection \<open>The Chat model\<close>

text \<open>
  An assistant is a Python object; it is identified by the position in the trace of
  the constructor call that made it. \<^verbatim>\<open>started_at\<close> and \<^verbatim>\<open>chat_id\<close> have the defaults
  \<^verbatim>\<open>datetime.now().isoformat()\<close> and \<^verbatim>\<open>uuid.uuid4()\<close>, expressions of the class body:
  Python evaluates them once, when the class statement runs.
\<close>

record Chat =
  title :: string
  thread :: thread
  assistant :: nat
  started_at :: string
  chat_id :: string
  messages :: "string list"

subsection \<open>Calls to collaborators\<close>

datatype level = INFO | WARNING | ERROR

text \<open>
  An embed is kept symbolic: the title card of \<^verbatim>\<open>_make_title_card_embed\<close> (user name,
  chat title, \<^verbatim>\<open>datetime.now()\<close>) and the introduction of \<^verbatim>\<open>_initial_message_embed\<close>
  (the initial message it quotes).
\<close>

datatype embed = TitleCard string string string | InitialMessage string

text \<open>
  A message that the bot has sent is identified by the position of the sending call
  in the trace (\<open>MessageEdit k\<close> edits the message returned by call \<open>k\<close>).
\<close>

datatype event =
    Log level string
  | Print string
  | CtxSend embed
  | CreateThread int string
  | FetchMessage int int
  | ThreadSend int string
  | ThreadSendEmbed int embed
  | MessageEdit nat string
  | Typing int
  | NewAssistant
  | LoadMemory nat int string
  | ProcessInput nat string

record env =
  bot_user_id :: int
  bot_user_name :: string
  bot_user_str :: string
  admin_users :: "int list"
  cached_channels :: "int list"
  default_started_at :: string
  default_chat_id :: string
  now :: "nat \<Rightarrow> string"
  raises :: "nat \<Rightarrow> event \<Rightarrow> exn option"
  bot_response :: "nat \<Rightarrow> string"
  fetched_message :: "nat \<Rightarrow> message"
  created_thread :: "nat \<Rightarrow> thread"
  sent_message :: "nat \<Rightarrow> message"

text \<open>
  The state of the cog: the registry \<^verbatim>\<open>_active_threads\<close>, the list
  \<^verbatim>\<open>_allowed_channels\<close>, and the trace of calls made so far.
\<close>

record state =
  active_threads :: "int \<rightharpoonup> Chat"
  allowed_channels :: "int list"
  trace :: "event list"

definition emit :: "event \<Rightarrow> state \<Rightarrow> state" where
  "emit ev s = s\<lparr>trace := trace s @ [ev]\<rparr>"

definition outcome :: "env \<Rightarrow> nat \<Rightarrow> event \<Rightarrow> exn + nat" where
  "outcome env k ev = (case raises env k ev of Some e \<Rightarrow> Inl e | None \<Rightarrow> Inr k)"

text \<open>An awaited call: it is recorded, then it raises or returns its own position.\<close>

definition call :: "env \<Rightarrow> event \<Rightarrow> state \<Rightarrow> (exn + nat) \<times> state" where
  "call env ev s = (outcome env (length (trace s)) ev, emit ev s)"

text \<open>Sequencing: an exception of the first part skips the rest.\<close>

definition and_then ::
  "(exn + 'a) \<times> state \<Rightarrow> ('a \<Rightarrow> state \<Rightarrow> (exn + 'b) \<times> state) \<Rightarrow> (exn + 'b) \<times> state" where
  "and_then m f = (case m of (Inl e, s) \<Rightarrow> (Inl e, s) | (Inr x, s) \<Rightarrow> f x s)"

subsection \<open>Strings\<close>

fun digits :: "nat \<Rightarrow> string" where
  "digits n = (if n < 10 then [''0123456789'' ! n]
               else digits (n div 10) @ [''0123456789'' ! (n mod 10)])"

definition str_int :: "int \<Rightarrow> string" where
  "str_int i = (if i < 0 then CHR ''-'' # digits (nat (- i)) else digits (nat i))"

definition TIME_PASSED_MESSAGE :: string where
  "TIME_PASSED_MESSAGE =
     ''\<newline>> Some time passed and your memory of this conversation reset needed to be reloaded from the thread, but we're good now!\<newline>> \<newline>> Provide the human with a brief summary of what you remember about them and this conversation so far.\<newline>''"

text \<open>The brain emoji U+1F9E0, as its UTF-8 bytes.\<close>

definition brain :: string where
  "brain = [CHR 0xF0, CHR 0x9F, CHR 0xA7, CHR 0xA0]"

definition reloading_text :: string where
  "reloading_text =
     ''Reloading memory from thread (might take a while if this was a long conversation)...''"

definition reload_prefix :: string where
  "reload_prefix =
     ''> Memory reloaded from thread - Here's what we told the bot: ```'' @ TIME_PASSED_MESSAGE
       @ ''```> ...and it replied:''"

definition awaiting_text :: string where
  "awaiting_text = ''`Awaiting bot response...`''"

definition error_text :: "exn \<Rightarrow> string" where
  "error_text e =
     ''Oh no, something went wrong! \<newline>Here is the error:\<newline> ```\<newline>'' @ str_exn e @ ''\<newline>```''"

definition create_chat_title_string :: "env \<Rightarrow> string \<Rightarrow> string" where
  "create_chat_title_string env user_name = user_name @ '''s chat with '' @ bot_user_name env"

subsection \<open>Session creation\<close>

text \<open>
  The constructor call \<^verbatim>\<open>Chat(title=..., thread=..., assistant=...)\<close>: the other three
  fields take the defaults of the class.
\<close>

definition Chat_init :: "env \<Rightarrow> string \<Rightarrow> thread \<Rightarrow> nat \<Rightarrow> Chat" where
  "Chat_init env ttl th a =
     \<lparr>title = ttl, thread = th, assistant = a,
      started_at = default_started_at env, chat_id = default_chat_id env, messages = []\<rparr>"

text \<open>Lines 190 to 197 of \<^verbatim>\<open>_create_chat\<close>: build the chat, store it, return it.\<close>

definition create_chat_register ::
  "env \<Rightarrow> state \<Rightarrow> thread \<Rightarrow> string \<Rightarrow> nat \<Rightarrow> (exn + Chat) \<times> state" where
  "create_chat_register env s th ttl a =
     (let chat = Chat_init env ttl th a
      in (Inr chat, s\<lparr>active_threads := (active_threads s)(thread_id th \<mapsto> chat)\<rparr>))"

text \<open>
  \<^verbatim>\<open>_create_chat\<close> is a coroutine. It runs without interruption up to its first
  \<^verbatim>\<open>await\<close>, the \<^verbatim>\<open>thread.send\<close> of line 178, which is reached only when
  \<^verbatim>\<open>thread.message_count > 0\<close>; there it is suspended with the assistant it has built
  and the position of the pending call. Otherwise it finishes at once.
\<close>

datatype pending = Finished "exn + Chat" | Suspended nat nat

definition create_chat_until_await ::
  "env \<Rightarrow> state \<Rightarrow> thread \<Rightarrow> string \<Rightarrow> pending \<times> state" where
  "create_chat_until_await env s th ttl =
     (case active_threads s (thread_id th) of
        Some chat \<Rightarrow>
          (Finished (Inr chat),
           emit (Log WARNING (''Thread '' @ str_int (thread_id th)
                                @ '' already exists! Returning existing chat'')) s)
      | None \<Rightarrow>
          (case call env NewAssistant s of
             (Inl e, s1) \<Rightarrow> (Finished (Inl e), s1)
           | (Inr a, s1) \<Rightarrow>
               if message_count th > 0
               then (Suspended a (length (trace s1)),
                     emit (ThreadSend (thread_id th) reloading_text) s1)
               else (case create_chat_register env s1 th ttl a of
                       (r, s2) \<Rightarrow> (Finished r, s2))))"

text \<open>Lines 178 to 197, from the point where the pending \<^verbatim>\<open>thread.send\<close> completes.\<close>

definition create_chat_after_await ::
  "env \<Rightarrow> state \<Rightarrow> thread \<Rightarrow> string \<Rightarrow> nat \<Rightarrow> nat \<Rightarrow> (exn + Chat) \<times> state" where
  "create_chat_after_await env s th ttl a k =
     and_then (outcome env k (ThreadSend (thread_id th) reloading_text), s) (\<lambda>msg s1.
     and_then (call env (LoadMemory a (thread_id th) (bot_user_str env)) s1) (\<lambda>_ s2.
     and_then (call env (MessageEdit msg (reload_prefix @ ''\<newline>\<newline>...'')) s2) (\<lambda>_ s3.
     and_then (call env (ProcessInput a TIME_PASSED_MESSAGE) s3) (\<lambda>r s4.
     and_then (call env (MessageEdit msg (reload_prefix @ ''\<newline>\<newline>'' @ bot_response env r)) s4)
       (\<lambda>_ s5.
     create_chat_register env s5 th ttl a)))))"

text \<open>\<^verbatim>\<open>_create_chat\<close> run to completion, with no other task in between.\<close>

definition create_chat :: "env \<Rightarrow> state \<Rightarrow> thread \<Rightarrow> string \<Rightarrow> (exn + Chat) \<times> state" where
  "create_chat env s th ttl =
     (case create_chat_until_await env s th ttl of
        (Finished r, s1) \<Rightarrow> (r, s1)
      | (Suspended a k, s1) \<Rightarrow> create_chat_after_await env s1 th ttl a k)"

subsection \<open>Dispatch of one message to the assistant\<close>

text \<open>
  \<^verbatim>\<open>_async_send_message_to_bot\<close>: the placeholder is sent outside the \<^verbatim>\<open>try\<close>; the
  typing indicator, the model exchange and the edit that shows the reply are inside
  it; the handler logs the exception and edits the placeholder to the error text.
\<close>

definition async_send_message_to_bot ::
  "env \<Rightarrow> state \<Rightarrow> Chat \<Rightarrow> string \<Rightarrow> (exn + unit) \<times> state" where
  "async_send_message_to_bot env s chat input_text =
     and_then (call env (ThreadSend (thread_id (thread chat)) awaiting_text) s)
       (\<lambda>response_message s1.
     case and_then (call env (Typing (thread_id (thread chat))) s1) (\<lambda>_ s2.
          and_then (call env (ProcessInput (assistant chat) input_text) s2) (\<lambda>r s3.
          and_then (call env (MessageEdit response_message (bot_response env r)) s3) (\<lambda>_ s4.
          (Inr (), s4)))) of
       (Inr _, s5) \<Rightarrow> (Inr (), s5)
     | (Inl e, s5) \<Rightarrow>
         and_then (call env (MessageEdit response_message (error_text e))
                     (emit (Log ERROR (str_exn e)) s5)) (\<lambda>_ s6.
         (Inr (), s6)))"

subsection \<open>Spawning a thread\<close>

definition default_initial_text :: string where
  "default_initial_text = ''A human has requested a chat!''"

definition spawn_thread ::
  "env \<Rightarrow> state \<Rightarrow> message \<Rightarrow> string option \<Rightarrow> (exn + unit) \<times> state" where
  "spawn_thread env s msg initial_text_input =
     (let user_name = author_str msg;
          chat_title = create_chat_title_string env user_name
      in and_then (call env (CreateThread (message_id msg) chat_title) s) (\<lambda>k s1.
         and_then (create_chat env s1 (created_thread env k) chat_title) (\<lambda>chat s2.
         and_then (case initial_text_input of
                     None \<Rightarrow>
                       and_then (call env (ThreadSendEmbed (thread_id (thread chat))
                                             (InitialMessage default_initial_text)) s2) (\<lambda>_ s3.
                       (Inr default_initial_text, s3))
                   | Some txt \<Rightarrow> (Inr txt, s2)) (\<lambda>txt s4.
         async_send_message_to_bot env s4 chat txt))))"

subsection \<open>The handlers\<close>

text \<open>
  \<^verbatim>\<open>on_raw_reaction_add\<close>: the whole body is inside \<^verbatim>\<open>try ... except Exception\<close>, whose
  handler prints the exception; the function itself never raises.
  \<^verbatim>\<open>get_channel\<close> returns \<^verbatim>\<open>None\<close> for a channel that is not in the client's cache.
\<close>

definition on_raw_reaction_add :: "env \<Rightarrow> state \<Rightarrow> payload \<Rightarrow> state" where
  "on_raw_reaction_add env s p =
     (if user_id p = bot_user_id env then s
      else if emoji_name p \<noteq> brain then s
      else if user_id p \<notin> set (admin_users env)
      then emit (Log INFO (''User '' @ str_int (user_id p) @ '' is not an admin user'')) s
      else
        (case (if channel_id p \<in> set (cached_channels env)
               then and_then (call env (FetchMessage (channel_id p) (payload_message_id p)) s)
                      (\<lambda>k s1.
                    spawn_thread env s1 (fetched_message env k)
                      (Some (content (fetched_message env k))))
               else (Inl AttributeError, s)) of
           (Inr _, s2) \<Rightarrow> s2
         | (Inl e, s2) \<Rightarrow> emit (Print (''Error: '' @ str_exn e)) s2))"

text \<open>\<^verbatim>\<open>on_message\<close>: nothing here catches the \<open>IndexError\<close> of \<^verbatim>\<open>message.content[0]\<close>.\<close>

definition on_message :: "env \<Rightarrow> state \<Rightarrow> message \<Rightarrow> (exn + unit) \<times> state" where
  "on_message env s m =
     (let s0 = emit (Log INFO (''Received message: '' @ content m)) s
      in if author_id m = bot_user_id env then (Inr (), s0)
         else
           (case channel m of
              TextChannel _ \<Rightarrow> (Inr (), s0)
            | Thread th \<Rightarrow>
                if owner_id th \<noteq> bot_user_id env then (Inr (), s0)
                else
                  (case content m of
                     [] \<Rightarrow> (Inl IndexError, s0)
                   | c0 # _ \<Rightarrow>
                       if c0 = CHR ''~'' then (Inr (), s0)
                       else
                         and_then (case active_threads s0 (thread_id th) of
                                     Some chat \<Rightarrow> (Inr chat, s0)
                                   | None \<Rightarrow>
                                       create_chat env s0 th
                                         (create_chat_title_string env (author_str m)))
                           (\<lambda>chat s1.
                         async_send_message_to_bot env
                           (emit (Log INFO (''Sending message to the agent: '' @ content m)) s1)
                           chat (content m)))))"

text \<open>The slash command \<^verbatim>\<open>/chat\<close>.\<close>

definition chat :: "env \<Rightarrow> state \<Rightarrow> ctx \<Rightarrow> string option \<Rightarrow> (exn + unit) \<times> state" where
  "chat env s c initial_text_input =
     (if ctx_channel_id c \<notin> set (allowed_channels s)
      then (Inr (), emit (Log INFO (''Channel '' @ str_int (ctx_channel_id c)
                                      @ '' is not allowed to start a chat'')) s)
      else
        (let chat_title = create_chat_title_string env (ctx_user_str c);
             s0 = emit (Log INFO (''Starting chat '' @ chat_title)) s;
             title_card_embed = TitleCard (ctx_user_str c) chat_title (now env (length (trace s0)))
         in and_then (call env (CtxSend title_card_embed) s0) (\<lambda>k s1.
            spawn_thread env s1 (sent_message env k) initial_text_input)))"


subsection \<open>Runs of the cog\<close>

text \<open>
  A suspended \<^verbatim>\<open>_create_chat\<close> is resumed by the event loop; \<open>create_chat\<close> above is
  \<open>create_chat_until_await\<close> followed at once by \<open>resume\<close>.
\<close>

definition resume ::
  "env \<Rightarrow> state \<Rightarrow> thread \<Rightarrow> string \<Rightarrow> pending \<Rightarrow> (exn + Chat) \<times> state" where
  "resume env s th ttl p =
     (case p of
        Finished r \<Rightarrow> (r, s)
      | Suspended a k \<Rightarrow> create_chat_after_await env s th ttl a k)"

text \<open>
  Two tasks call \<^verbatim>\<open>_create_chat\<close> for the same thread. While the first is suspended
  at its \<^verbatim>\<open>await\<close>, the event loop starts the second; then the first is resumed and
  runs to its end, then the second.
\<close>

definition create_chat_race ::
  "env \<Rightarrow> state \<Rightarrow> thread \<Rightarrow> string \<Rightarrow> string \<Rightarrow> ((exn + Chat) \<times> (exn + Chat)) \<times> state" where
  "create_chat_race env s th ttl1 ttl2 =
     (case create_chat_until_await env s th ttl1 of (p1, s1) \<Rightarrow>
      case create_chat_until_await env s1 th ttl2 of (p2, s2) \<Rightarrow>
      case resume env s2 th ttl1 p1 of (r1, s3) \<Rightarrow>
      case resume env s3 th ttl2 p2 of (r2, s4) \<Rightarrow>
      ((r1, r2), s4))"

text \<open>
  The three kinds of event that reach the cog, and the cog's state after a handler
  has run (an exception that leaves \<^verbatim>\<open>chat\<close> or \<^verbatim>\<open>on_message\<close> is reported by the
  Discord client and the process goes on).
\<close>

datatype trigger = SlashChat ctx "string option" | ReactionAdd payload | MessageCreate message

fun handle :: "env \<Rightarrow> state \<Rightarrow> trigger \<Rightarrow> state" where
  "handle env s (SlashChat c initial_text_input) = snd (chat env s c initial_text_input)"
| "handle env s (ReactionAdd p) = on_raw_reaction_add env s p"
| "handle env s (MessageCreate m) = snd (on_message env s m)"

fun run :: "env \<Rightarrow> state \<Rightarrow> trigger list \<Rightarrow> state" where
  "run env s [] = s"
| "run env s (t # ts) = run env (handle env s t) ts"

text \<open>The calls made between two states, and whether one of them loads history.\<close>

definition new_events :: "state \<Rightarrow> state \<Rightarrow> event list" where
  "new_events s s' = drop (length (trace s)) (trace s')"

fun is_LoadMemory :: "event \<Rightarrow> bool" where
  "is_LoadMemory (LoadMemory _ _ _) = True"
| "is_LoadMemory _ = False"


subsection \<open>The handlers as coroutines\<close>

text \<open>
  The handlers are \<^verbatim>\<open>async def\<close>s, and the Discord client runs each event's handler as
  a task of one event loop: a task runs alone until it reaches an \<^verbatim>\<open>await\<close> on a
  collaborator, and while it waits there the loop may run any other task. To speak
  about that, a handler is also written as a tree of its steps: \<open>Read\<close> and \<open>Write\<close>
  look at and change the cog's state without suspending (\<open>Write (emit ...)\<close> is a line
  for the logger), \<open>Call\<close> is a synchronous call of a collaborator (the constructor
  \<^verbatim>\<open>CourseAssistant()\<close>), and \<open>Await\<close> is an awaited call, where the task is suspended
  until the call has raised or returned.
\<close>

datatype 'a coro =
    Done "exn + 'a"
  | Read "state \<Rightarrow> 'a coro"
  | Write "state \<Rightarrow> state" "'a coro"
  | Call event "exn + nat \<Rightarrow> 'a coro"
  | Await event "exn + nat \<Rightarrow> 'a coro"

text \<open>Sequencing, and \<^verbatim>\<open>try: ... except Exception as e: ...\<close>.\<close>

primrec bind_co :: "'a coro \<Rightarrow> ('a \<Rightarrow> 'b coro) \<Rightarrow> 'b coro" where
  "bind_co (Done r) f = (case r of Inl e \<Rightarrow> Done (Inl e) | Inr x \<Rightarrow> f x)"
| "bind_co (Read g) f = Read (\<lambda>s. bind_co (g s) f)"
| "bind_co (Write g c) f = Write g (bind_co c f)"
| "bind_co (Call ev k) f = Call ev (\<lambda>r. bind_co (k r) f)"
| "bind_co (Await ev k) f = Await ev (\<lambda>r. bind_co (k r) f)"

primrec catch_co :: "'a coro \<Rightarrow> (exn \<Rightarrow> 'a coro) \<Rightarrow> 'a coro" where
  "catch_co (Done r) h = (case r of Inl e \<Rightarrow> h e | Inr x \<Rightarrow> Done (Inr x))"
| "catch_co (Read g) h = Read (\<lambda>s. catch_co (g s) h)"
| "catch_co (Write g c) h = Write g (catch_co c h)"
| "catch_co (Call ev k) h = Call ev (\<lambda>r. catch_co (k r) h)"
| "catch_co (Await ev k) h = Await ev (\<lambda>r. catch_co (k r) h)"

text \<open>A coroutine run from its start to its end with no other task in between.\<close>

primrec exec :: "env \<Rightarrow> 'a coro \<Rightarrow> state \<Rightarrow> (exn + 'a) \<times> state" where
  "exec env (Done r) = (\<lambda>s. (r, s))"
| "exec env (Read f) = (\<lambda>s. exec env (f s) s)"
| "exec env (Write g c) = (\<lambda>s. exec env c (g s))"
| "exec env (Call ev k) = (\<lambda>s. exec env (k (outcome env (length (trace s)) ev)) (emit ev s))"
| "exec env (Await ev k) = (\<lambda>s. exec env (k (outcome env (length (trace s)) ev)) (emit ev s))"

text \<open>
  A task that has been started is either finished or waiting for the call it made
  at some position of the trace. \<open>advance\<close> runs a coroutine up to its next \<^verbatim>\<open>await\<close>.
\<close>

datatype 'a waiting = Returned "exn + 'a" | Waiting nat event "exn + nat \<Rightarrow> 'a coro"

primrec advance :: "env \<Rightarrow> 'a coro \<Rightarrow> state \<Rightarrow> 'a waiting \<times> state" where
  "advance env (Done r) = (\<lambda>s. (Returned r, s))"
| "advance env (Read f) = (\<lambda>s. advance env (f s) s)"
| "advance env (Write g c) = (\<lambda>s. advance env c (g s))"
| "advance env (Call ev k) = (\<lambda>s. advance env (k (outcome env (length (trace s)) ev)) (emit ev s))"
| "advance env (Await ev k) = (\<lambda>s. (Waiting (length (trace s)) ev k, emit ev s))"

definition co_await :: "event \<Rightarrow> nat coro" where
  "co_await ev = Await ev Done"

definition co_call :: "event \<Rightarrow> nat coro" where
  "co_call ev = Call ev Done"

text \<open>
  The bodies of \<^verbatim>\<open>_create_chat\<close>, \<^verbatim>\<open>_async_send_message_to_bot\<close>, \<^verbatim>\<open>_spawn_thread\<close> and the
  three handlers, statement by statement. An \<^verbatim>\<open>await\<close> of another coroutine of the cog
  is sequencing; it does not suspend by itself.
\<close>

definition create_chat_co :: "env \<Rightarrow> thread \<Rightarrow> string \<Rightarrow> Chat coro" where
  "create_chat_co env th ttl =
     Read (\<lambda>s.
       case active_threads s (thread_id th) of
         Some ch \<Rightarrow>
           Write (emit (Log WARNING (''Thread '' @ str_int (thread_id th)
                                       @ '' already exists! Returning existing chat'')))
             (Done (Inr ch))
       | None \<Rightarrow>
           bind_co (co_call NewAssistant) (\<lambda>a.
           bind_co (if message_count th > 0
                    then bind_co (co_await (ThreadSend (thread_id th) reloading_text)) (\<lambda>msg.
                         bind_co (co_await (LoadMemory a (thread_id th) (bot_user_str env))) (\<lambda>_.
                         bind_co (co_await (MessageEdit msg (reload_prefix @ ''\<newline>\<newline>...''))) (\<lambda>_.
                         bind_co (co_await (ProcessInput a TIME_PASSED_MESSAGE)) (\<lambda>r.
                         co_await (MessageEdit msg (reload_prefix @ ''\<newline>\<newline>'' @ bot_response env r))))))
                    else Done (Inr a)) (\<lambda>_.
           Write (\<lambda>s1. snd (create_chat_register env s1 th ttl a))
             (Done (Inr (Chat_init env ttl th a))))))"

definition async_send_message_to_bot_co :: "env \<Rightarrow> Chat \<Rightarrow> string \<Rightarrow> unit coro" where
  "async_send_message_to_bot_co env ch input_text =
     bind_co (co_await (ThreadSend (thread_id (thread ch)) awaiting_text)) (\<lambda>response_message.
     catch_co
       (bind_co (co_await (Typing (thread_id (thread ch)))) (\<lambda>_.
        bind_co (co_await (ProcessInput (assistant ch) input_text)) (\<lambda>r.
        bind_co (co_await (MessageEdit response_message (bot_response env r))) (\<lambda>_.
        Done (Inr ())))))
       (\<lambda>e. Write (emit (Log ERROR (str_exn e)))
               (bind_co (co_await (MessageEdit response_message (error_text e))) (\<lambda>_.
                Done (Inr ())))))"

definition spawn_thread_co :: "env \<Rightarrow> message \<Rightarrow> string option \<Rightarrow> unit coro" where
  "spawn_thread_co env msg initial_text_input =
     (let user_name = author_str msg;
          chat_title = create_chat_title_string env user_name
      in bind_co (co_await (CreateThread (message_id msg) chat_title)) (\<lambda>k.
         bind_co (create_chat_co env (created_thread env k) chat_title) (\<lambda>ch.
         bind_co (case initial_text_input of
                    None \<Rightarrow>
                      bind_co (co_await (ThreadSendEmbed (thread_id (thread ch))
                                        (InitialMessage default_initial_text))) (\<lambda>_.
                      Done (Inr default_initial_text))
                  | Some txt \<Rightarrow> Done (Inr txt)) (\<lambda>txt.
         async_send_message_to_bot_co env ch txt))))"

definition on_raw_reaction_add_co :: "env \<Rightarrow> payload \<Rightarrow> unit coro" where
  "on_raw_reaction_add_co env p =
     (if user_id p = bot_user_id env then Done (Inr ())
      else if emoji_name p \<noteq> brain then Done (Inr ())
      else if user_id p \<notin> set (admin_users env)
      then Write (emit (Log INFO (''User '' @ str_int (user_id p) @ '' is not an admin user'')))
             (Done (Inr ()))
      else
        catch_co
          (if channel_id p \<in> set (cached_channels env)
           then bind_co (co_await (FetchMessage (channel_id p) (payload_message_id p))) (\<lambda>k.
                spawn_thread_co env (fetched_message env k)
                  (Some (content (fetched_message env k))))
           else Done (Inl AttributeError))
          (\<lambda>e. Write (emit (Print (''Error: '' @ str_exn e))) (Done (Inr ()))))"

definition on_message_co :: "env \<Rightarrow> message \<Rightarrow> unit coro" where
  "on_message_co env m =
     Write (emit (Log INFO (''Received message: '' @ content m)))
       (if author_id m = bot_user_id env then Done (Inr ())
        else
          (case channel m of
             TextChannel _ \<Rightarrow> Done (Inr ())
           | Thread th \<Rightarrow>
               if owner_id th \<noteq> bot_user_id env then Done (Inr ())
               else
                 (case content m of
                    [] \<Rightarrow> Done (Inl IndexError)
                  | c0 # _ \<Rightarrow>
                      if c0 = CHR ''~'' then Done (Inr ())
                      else
                        bind_co (Read (\<lambda>s.
                                   case active_threads s (thread_id th) of
                                     Some ch \<Rightarrow> Done (Inr ch)
                                   | None \<Rightarrow>
                                       create_chat_co env th
                                         (create_chat_title_string env (author_str m))))
                          (\<lambda>ch.
                        Write (emit (Log INFO (''Sending message to the agent: '' @ content m)))
                          (async_send_message_to_bot_co env ch (content m))))))"

definition chat_co :: "env \<Rightarrow> ctx \<Rightarrow> string option \<Rightarrow> unit coro" where
  "chat_co env c initial_text_input =
     Read (\<lambda>s.
       if ctx_channel_id c \<notin> set (allowed_channels s)
       then Write (emit (Log INFO (''Channel '' @ str_int (ctx_channel_id c)
                                     @ '' is not allowed to start a chat'')))
              (Done (Inr ()))
       else
         (let chat_title = create_chat_title_string env (ctx_user_str c)
          in Write (emit (Log INFO (''Starting chat '' @ chat_title)))
               (Read (\<lambda>s0.
                  bind_co (co_await (CtxSend (TitleCard (ctx_user_str c) chat_title
                                             (now env (length (trace s0)))))) (\<lambda>k.
                  spawn_thread_co env (sent_message env k) initial_text_input)))))"

fun handler_co :: "env \<Rightarrow> trigger \<Rightarrow> unit coro" where
  "handler_co env (SlashChat c initial_text_input) = chat_co env c initial_text_input"
| "handler_co env (ReactionAdd p) = on_raw_reaction_add_co env p"
| "handler_co env (MessageCreate m) = on_message_co env m"

text \<open>
  The event loop: an event arrives and its handler runs up to its first \<^verbatim>\<open>await\<close>, or
  a waiting task gets the outcome of its call and runs up to its next one. A
  schedule is any list of such steps.
\<close>

datatype action = Dispatch trigger | Resume nat

fun act :: "env \<Rightarrow> state \<times> unit waiting list \<Rightarrow> action \<Rightarrow> state \<times> unit waiting list" where
  "act env (s, ws) (Dispatch t) =
     (case advance env (handler_co env t) s of (w, s') \<Rightarrow> (s', ws @ [w]))"
| "act env (s, ws) (Resume i) =
     (if i < length ws
      then (case ws ! i of
              Returned r \<Rightarrow> (s, ws)
            | Waiting pos ev k \<Rightarrow>
                (case advance env (k (outcome env pos ev)) s of (w, s') \<Rightarrow> (s', ws[i := w])))
      else (s, ws))"

fun sched :: "env \<Rightarrow> state \<times> unit waiting list \<Rightarrow> action list \<Rightarrow> state \<times> unit waiting list" where
  "sched env cfg [] = cfg"
| "sched env cfg (a # as) = sched env (act env cfg a) as"

text \<open>
  A coroutine none of whose writes removes a key of the registry, and a waiting task
  whose continuation is of that kind.
\<close>

primrec only_adds :: "'a coro \<Rightarrow> bool" where
  "only_adds (Done r) = True"
| "only_adds (Read f) = (\<forall>s. only_adds (f s))"
| "only_adds (Write g c) =
     ((\<forall>s. dom (active_threads s) \<subseteq> dom (active_threads (g s))) \<and> only_adds c)"
| "only_adds (Call ev k) = (\<forall>r. only_adds (k r))"
| "only_adds (Await ev k) = (\<forall>r. only_adds (k r))"

fun only_adds_w :: "'a waiting \<Rightarrow> bool" where
  "only_adds_w (Returned r) = True"
| "only_adds_w (Waiting pos ev k) = (\<forall>r. only_adds (k r))"

subsection \<open>Example inputs\<close>

definition ex_thread :: thread where
  "ex_thread = \<lparr>thread_id = 50, owner_id = 1, message_count = 3\<rparr>"

definition ex_message :: "int \<Rightarrow> string \<Rightarrow> thread \<Rightarrow> message" where
  "ex_message author txt th =
     \<lparr>message_id = 70, author_id = author, author_str = ''ann'', content = txt,
      channel = Thread th\<rparr>"

text \<open>
  An environment whose clock reads a day in May 2023 for the calls before position
  \<open>n\<close> and the same day of 2024 from there on; \<open>r\<close> says which calls raise.
\<close>

definition ex_env :: "nat \<Rightarrow> (nat \<Rightarrow> event \<Rightarrow> exn option) \<Rightarrow> env" where
  "ex_env n r =
     \<lparr>bot_user_id = 1, bot_user_name = ''bot'', bot_user_str = ''bot#0001'',
      admin_users = [5], cached_channels = [100],
      default_started_at = ''2023-05-01T09:00:00'', default_chat_id = ''uuid-0'',
      now = (\<lambda>k. if k < n then ''2023-05-01 09:00:00'' else ''2024-05-01 09:00:00''),
      raises = r, bot_response = (\<lambda>k. ''reply''),
      fetched_message = (\<lambda>k. \<lparr>message_id = 80, author_id = 9, author_str = ''ann'',
                              content = ''hi'', channel = TextChannel 100\<rparr>),
      created_thread = (\<lambda>k. \<lparr>thread_id = 60, owner_id = 1, message_count = 0\<rparr>),
      sent_message = (\<lambda>k. \<lparr>message_id = 80, author_id = 1, author_str = ''bot#0001'',
                           content = [], channel = TextChannel 100\<rparr>)\<rparr>"

definition never :: "nat \<Rightarrow> event \<Rightarrow> exn option" where
  "never k ev = None"

definition history_unavailable :: "nat \<Rightarrow> event \<Rightarrow> exn option" where
  "history_unavailable k ev =
     (if is_LoadMemory ev then Some (External ''history unavailable'') else None)"



definition ex_state :: state where
  "ex_state = \<lparr>active_threads = Map.empty, allowed_channels = [100], trace = []\<rparr>"

definition ex_chat :: Chat where
  "ex_chat = Chat_init (ex_env 0 never) ''ann's chat with bot'' ex_thread 0"

definition ex_ctx :: ctx where
  "ex_ctx = \<lparr>ctx_channel_id = 100, ctx_user_str = ''ann''\<rparr>"

definition ex_state_registered :: state where
  "ex_state_registered =
     \<lparr>active_threads = [50 \<mapsto> ex_chat], allowed_channels = [100], trace = [NewAssistant]\<rparr>"

section \<open>Properties\<close>

subsection \<open>The primitives\<close>

declare digits.simps [simp del]

lemma emit_simps:
  "active_threads (emit ev s) = active_threads s"
  "allowed_channels (emit ev s) = allowed_channels s"
  "trace (emit ev s) = trace s @ [ev]"
  by (simp_all add: emit_def)

lemma and_then_pair:
  "and_then (Inl e, s) f = (Inl e, s)"
  "and_then (Inr x, s) f = f x s"
  by (simp_all add: and_then_def)

lemma and_then_call:
  "and_then (call env ev s) f =
     (case raises env (length (trace s)) ev of
        Some e \<Rightarrow> (Inl e, emit ev s)
      | None \<Rightarrow> f (length (trace s)) (emit ev s))"
  by (simp add: and_then_def call_def outcome_def split: option.splits)

subsection \<open>Session creation\<close>

text \<open>
  Run without interruption, \<^verbatim>\<open>_create_chat\<close> is the body of the source read top to
  bottom, every \<^verbatim>\<open>await\<close> a call.
\<close>

lemma create_chat_sequential:
  "create_chat env s th ttl =
     (case active_threads s (thread_id th) of
        Some c \<Rightarrow>
          (Inr c, emit (Log WARNING (''Thread '' @ str_int (thread_id th)
                                @ '' already exists! Returning existing chat'')) s)
      | None \<Rightarrow>
          and_then (call env NewAssistant s) (\<lambda>a s1.
          if message_count th > 0 then
            and_then (call env (ThreadSend (thread_id th) reloading_text) s1) (\<lambda>msg s2.
            and_then (call env (LoadMemory a (thread_id th) (bot_user_str env)) s2) (\<lambda>_ s3.
            and_then (call env (MessageEdit msg (reload_prefix @ ''\<newline>\<newline>...'')) s3) (\<lambda>_ s4.
            and_then (call env (ProcessInput a TIME_PASSED_MESSAGE) s4) (\<lambda>r s5.
            and_then (call env (MessageEdit msg (reload_prefix @ ''\<newline>\<newline>'' @ bot_response env r)) s5)
              (\<lambda>_ s6.
            create_chat_register env s6 th ttl a)))))
          else create_chat_register env s1 th ttl a))"
  by (simp add: create_chat_def create_chat_until_await_def create_chat_after_await_def
      and_then_def call_def emit_def
      split: option.splits sum.splits prod.splits)

text \<open>
  C1. When the thread's id is already a key of the registry, \<^verbatim>\<open>_create_chat\<close> returns
  the chat stored there and leaves the registry as it was. The only call it makes is
  the warning to the logger: no assistant is constructed and nothing is sent to the
  thread.
\<close>

theorem create_chat_existing:
  assumes "active_threads s (thread_id th) = Some c"
  shows "fst (create_chat env s th ttl) = Inr c
       \<and> active_threads (snd (create_chat env s th ttl)) = active_threads s
       \<and> new_events s (snd (create_chat env s th ttl)) =
           [Log WARNING (''Thread '' @ str_int (thread_id th)
                           @ '' already exists! Returning existing chat'')]"
  using assms by (simp add: create_chat_sequential emit_simps new_events_def)

theorem create_chat_existing_witness:
  "active_threads ex_state_registered (thread_id ex_thread) = Some ex_chat
   \<and> fst (create_chat (ex_env 0 never) ex_state_registered ex_thread ''again'') = Inr ex_chat
   \<and> active_threads (snd (create_chat (ex_env 0 never) ex_state_registered ex_thread ''again''))
       = active_threads ex_state_registered"
proof -
  have h: "active_threads ex_state_registered (thread_id ex_thread) = Some ex_chat"
    by (simp add: ex_state_registered_def ex_thread_def)
  from create_chat_existing [OF h] show ?thesis using h by simp
qed

text \<open>
  C4. \<^verbatim>\<open>_create_chat\<close> catches nothing. When it ends with an exception, the registry
  is what it was before the call, at least one call was made, and the exception is
  the one that the last call raised.
\<close>

theorem create_chat_failure_propagates:
  assumes "create_chat env s th ttl = (Inl e, s')"
  shows "active_threads s' = active_threads s
       \<and> new_events s s' \<noteq> []
       \<and> raises env (length (trace s') - 1) (last (trace s')) = Some e"
  using assms
  by (auto simp: create_chat_sequential and_then_call create_chat_register_def emit_simps
        new_events_def Let_def
      split: option.splits if_splits)

theorem create_chat_failure_propagates_witness:
  "create_chat (ex_env 0 history_unavailable) ex_state ex_thread ''ann's chat with bot'' =
     (Inl (External ''history unavailable''),
      ex_state\<lparr>trace := [NewAssistant, ThreadSend 50 reloading_text, LoadMemory 0 50 ''bot#0001'']\<rparr>)
   \<and> active_threads
        (ex_state\<lparr>trace := [NewAssistant, ThreadSend 50 reloading_text, LoadMemory 0 50 ''bot#0001'']\<rparr>)
       = active_threads ex_state
   \<and> raises (ex_env 0 history_unavailable) 2 (LoadMemory 0 50 ''bot#0001'')
       = Some (External ''history unavailable'')"
proof -
  have h: "create_chat (ex_env 0 history_unavailable) ex_state ex_thread ''ann's chat with bot'' =
     (Inl (External ''history unavailable''),
      ex_state\<lparr>trace := [NewAssistant, ThreadSend 50 reloading_text, LoadMemory 0 50 ''bot#0001'']\<rparr>)"
    by (simp add: create_chat_sequential and_then_call emit_def ex_env_def ex_state_def ex_thread_def
      history_unavailable_def)
  from create_chat_failure_propagates [OF h] show ?thesis using h by (simp add: numeral_2_eq_2)
qed

text \<open>
  C3, as the specification states it, fails: a history load that raises does not give
  a session with empty memory. In the example below \<^verbatim>\<open>load_memory_from_thread\<close> raises;
  \<^verbatim>\<open>_create_chat\<close> ends with that exception and the thread has no entry in the
  registry.
\<close>

theorem history_failure_counterexample:
  "fst (create_chat (ex_env 0 history_unavailable) ex_state ex_thread ''ann's chat with bot'')
     = Inl (External ''history unavailable'')
   \<and> active_threads
       (snd (create_chat (ex_env 0 history_unavailable) ex_state ex_thread ''ann's chat with bot''))
       (thread_id ex_thread) = None"
  by (simp add: create_chat_sequential and_then_call emit_def ex_env_def ex_state_def ex_thread_def
      history_unavailable_def)

text \<open>
  C3, amended. For a thread that is not registered and has \<^verbatim>\<open>message_count > 0\<close>, when
  the assistant is constructed, the notice is sent and \<^verbatim>\<open>load_memory_from_thread\<close>
  raises \<open>e\<close>, then \<^verbatim>\<open>_create_chat\<close> raises \<open>e\<close>, makes no further call, and leaves the
  registry unchanged: no session exists for the thread.
\<close>

theorem history_failure_creates_no_session:
  assumes "active_threads s (thread_id th) = None"
    and "message_count th > 0"
    and "raises env (length (trace s)) NewAssistant = None"
    and "raises env (length (trace s) + 1) (ThreadSend (thread_id th) reloading_text) = None"
    and "raises env (length (trace s) + 2)
           (LoadMemory (length (trace s)) (thread_id th) (bot_user_str env)) = Some e"
  shows "fst (create_chat env s th ttl) = Inl e
       \<and> active_threads (snd (create_chat env s th ttl)) = active_threads s
       \<and> active_threads (snd (create_chat env s th ttl)) (thread_id th) = None
       \<and> new_events s (snd (create_chat env s th ttl)) =
           [NewAssistant, ThreadSend (thread_id th) reloading_text,
            LoadMemory (length (trace s)) (thread_id th) (bot_user_str env)]"
  using assms
  by (simp add: create_chat_sequential and_then_call emit_simps new_events_def)

theorem history_failure_creates_no_session_witness:
  "active_threads ex_state (thread_id ex_thread) = None
   \<and> message_count ex_thread > 0
   \<and> fst (create_chat (ex_env 0 history_unavailable) ex_state ex_thread ''x'')
       = Inl (External ''history unavailable'')
   \<and> active_threads (snd (create_chat (ex_env 0 history_unavailable) ex_state ex_thread ''x''))
       = active_threads ex_state"
proof -
  have h1: "active_threads ex_state (thread_id ex_thread) = None"
    by (simp add: ex_state_def)
  have h2: "message_count ex_thread > 0"
    by (simp add: ex_thread_def)
  have h3: "raises (ex_env 0 history_unavailable) (length (trace ex_state)) NewAssistant = None"
    by (simp add: ex_env_def history_unavailable_def)
  have h4: "raises (ex_env 0 history_unavailable) (length (trace ex_state) + 1)
              (ThreadSend (thread_id ex_thread) reloading_text) = None"
    by (simp add: ex_env_def history_unavailable_def)
  have h5: "raises (ex_env 0 history_unavailable) (length (trace ex_state) + 2)
              (LoadMemory (length (trace ex_state)) (thread_id ex_thread)
                 (bot_user_str (ex_env 0 history_unavailable)))
            = Some (External ''history unavailable'')"
    by (simp add: ex_env_def history_unavailable_def)
  from history_failure_creates_no_session [OF h1 h2 h3 h4 h5, of "''x''"]
  show ?thesis using h1 h2 by simp
qed

subsection \<open>Dispatch of one message\<close>








subsection \<open>History is loaded at creation only\<close>







subsection \<open>Reactions\<close>

text \<open>
  C9. A reaction added by the bot itself, or with another emoji than the brain, or by
  a user who is not in \<^verbatim>\<open>get_admin_users()\<close>, changes nothing in the registry and makes
  no call to Discord or to an assistant. The one thing recorded, for a user with the
  right emoji who is not an admin, is a logger entry at level INFO.
\<close>

theorem unauthorized_reaction_ignored:
  assumes "user_id p = bot_user_id env \<or> emoji_name p \<noteq> brain
           \<or> user_id p \<notin> set (admin_users env)"
  shows "active_threads (on_raw_reaction_add env s p) = active_threads s
       \<and> new_events s (on_raw_reaction_add env s p) =
           (if user_id p \<noteq> bot_user_id env \<and> emoji_name p = brain
            then [Log INFO (''User '' @ str_int (user_id p) @ '' is not an admin user'')]
            else [])"
  using assms
  by (auto simp: on_raw_reaction_add_def emit_simps new_events_def)

theorem unauthorized_reaction_ignored_witness:
  "user_id \<lparr>user_id = 6, emoji_name = brain, channel_id = 100, payload_message_id = 70\<rparr>
     \<notin> set (admin_users (ex_env 0 never))
   \<and> active_threads (on_raw_reaction_add (ex_env 0 never) ex_state
        \<lparr>user_id = 6, emoji_name = brain, channel_id = 100, payload_message_id = 70\<rparr>)
       = active_threads ex_state
   \<and> new_events ex_state (on_raw_reaction_add (ex_env 0 never) ex_state
        \<lparr>user_id = 6, emoji_name = brain, channel_id = 100, payload_message_id = 70\<rparr>)
       = [Log INFO (''User '' @ str_int 6 @ '' is not an admin user'')]"
proof -
  let ?p = "\<lparr>user_id = 6, emoji_name = brain, channel_id = 100, payload_message_id = 70\<rparr>"
  have h: "user_id ?p \<notin> set (admin_users (ex_env 0 never))"
    by (simp add: ex_env_def)
  have b: "user_id ?p \<noteq> bot_user_id (ex_env 0 never)"
    by (simp add: ex_env_def)
  from unauthorized_reaction_ignored [of ?p "ex_env 0 never" ex_state]
  show ?thesis using h b by simp
qed

subsection \<open>Messages with no text\<close>

text \<open>
  C10, as stated, covers every message with empty text in a thread that the bot owns.
  For such a message written by the bot itself (the embed of \<^verbatim>\<open>_spawn_thread\<close> is one:
  it has no text) the handler returns at its first check and raises nothing.
\<close>

theorem empty_message_from_bot_counterexample:
  "author_id (ex_message 1 [] ex_thread) = bot_user_id (ex_env 0 never)
   \<and> channel (ex_message 1 [] ex_thread) = Thread ex_thread
   \<and> owner_id ex_thread = bot_user_id (ex_env 0 never)
   \<and> content (ex_message 1 [] ex_thread) = []
   \<and> fst (on_message (ex_env 0 never) ex_state (ex_message 1 [] ex_thread)) = Inr ()"
  by (simp add: on_message_def Let_def ex_message_def ex_env_def ex_thread_def)

text \<open>
  C10, amended. For a message with empty text, written by anyone but the bot, in a
  thread that the bot owns, \<^verbatim>\<open>on_message\<close> raises \<open>IndexError\<close> after logging the received
  message; nothing else is done.
\<close>

theorem empty_message_raises_IndexError:
  assumes "author_id m \<noteq> bot_user_id env"
    and "channel m = Thread th"
    and "owner_id th = bot_user_id env"
    and "content m = []"
  shows "on_message env s m = (Inl IndexError, emit (Log INFO ''Received message: '') s)"
  using assms by (simp add: on_message_def Let_def)

theorem empty_message_raises_IndexError_witness:
  "author_id (ex_message 9 [] ex_thread) \<noteq> bot_user_id (ex_env 0 never)
   \<and> channel (ex_message 9 [] ex_thread) = Thread ex_thread
   \<and> owner_id ex_thread = bot_user_id (ex_env 0 never)
   \<and> content (ex_message 9 [] ex_thread) = []
   \<and> on_message (ex_env 0 never) ex_state (ex_message 9 [] ex_thread)
       = (Inl IndexError, emit (Log INFO ''Received message: '') ex_state)"
proof -
  have h1: "author_id (ex_message 9 [] ex_thread) \<noteq> bot_user_id (ex_env 0 never)"
    by (simp add: ex_message_def ex_env_def)
  have h2: "channel (ex_message 9 [] ex_thread) = Thread ex_thread"
    by (simp add: ex_message_def)
  have h3: "owner_id ex_thread = bot_user_id (ex_env 0 never)"
    by (simp add: ex_thread_def ex_env_def)
  have h4: "content (ex_message 9 [] ex_thread) = []"
    by (simp add: ex_message_def)
  from empty_message_raises_IndexError [OF h1 h2 h3 h4, of ex_state]
  show ?thesis using h1 h2 h3 h4 by simp
qed

subsection \<open>The coroutines are the handlers\<close>

text \<open>
  Run without interruption, each coroutine does what the handler of the same name
  above does.
\<close>

lemma exec_bind_co:
  "exec env (bind_co c f) s = and_then (exec env c s) (\<lambda>x s'. exec env (f x) s')"
  by (induction c arbitrary: s) (simp_all add: and_then_def split: sum.splits)

lemma exec_catch_co:
  "exec env (catch_co c h) s =
     (case exec env c s of (Inl e, s') \<Rightarrow> exec env (h e) s' | (Inr x, s') \<Rightarrow> (Inr x, s'))"
  by (induction c arbitrary: s) (simp_all split: sum.splits)

lemma exec_co_await: "exec env (co_await ev) s = call env ev s"
  by (simp add: co_await_def call_def)

lemma exec_co_call: "exec env (co_call ev) s = call env ev s"
  by (simp add: co_call_def call_def)

lemma exec_create_chat_co: "exec env (create_chat_co env th ttl) s = create_chat env s th ttl"
  by (cases "active_threads s (thread_id th)"; cases "0 < message_count th")
     (simp_all del: bind_co.simps add: create_chat_co_def create_chat_sequential exec_bind_co
        exec_co_await exec_co_call and_then_call and_then_pair create_chat_register_def Let_def
        split: option.splits)

lemma exec_async_send_co:
  "exec env (async_send_message_to_bot_co env ch txt) s = async_send_message_to_bot env s ch txt"
  by (simp del: bind_co.simps catch_co.simps
      add: async_send_message_to_bot_co_def async_send_message_to_bot_def exec_bind_co
        exec_catch_co exec_co_await and_then_call and_then_pair
      split: option.splits)


lemma exec_spawn_thread_co:
  "exec env (spawn_thread_co env msg init) s = spawn_thread env s msg init"
  by (cases init)
     (simp_all del: bind_co.simps
        add: spawn_thread_co_def spawn_thread_def Let_def exec_bind_co exec_co_await
          exec_create_chat_co exec_async_send_co and_then_pair)

lemma exec_on_message_co: "exec env (on_message_co env m) s = on_message env s m"
  by (simp del: bind_co.simps
      add: on_message_co_def on_message_def Let_def exec_bind_co exec_create_chat_co
        exec_async_send_co and_then_pair emit_simps
      split: channel.splits list.splits option.splits)

lemma exec_chat_co: "exec env (chat_co env c init) s = chat env s c init"
  by (simp del: bind_co.simps
      add: chat_co_def chat_def Let_def exec_bind_co exec_co_await exec_spawn_thread_co)

lemma exec_on_raw_reaction_add_co:
  "snd (exec env (on_raw_reaction_add_co env p) s) = on_raw_reaction_add env s p"
  by (simp del: bind_co.simps catch_co.simps
      add: on_raw_reaction_add_co_def on_raw_reaction_add_def exec_catch_co exec_bind_co
        exec_co_await exec_spawn_thread_co
      split: sum.splits prod.splits)

lemma exec_handler_co: "snd (exec env (handler_co env t) s) = handle env s t"
  by (cases t) (simp_all add: exec_chat_co exec_on_raw_reaction_add_co exec_on_message_co)

subsection \<open>Every run of a handler alone is a schedule\<close>

lemma sched_append: "sched env cfg (acts @ later) = sched env (sched env cfg acts) later"
  by (induction acts arbitrary: cfg) simp_all

lemma resume_last:
  "act env (s, ws @ [Waiting pos ev k]) (Resume (length ws)) =
     (case advance env (k (outcome env pos ev)) s of (w, s') \<Rightarrow> (s', ws @ [w]))"
  by (simp split: prod.splits)

lemma advance_then_resume:
  fixes c :: "unit coro"
  assumes "advance env c s = (w, s1)"
  shows "\<exists>n. sched env (s1, ws @ [w]) (replicate n (Resume (length ws))) =
               (snd (exec env c s), ws @ [Returned (fst (exec env c s))])"
  using assms
proof (induction c arbitrary: s w s1)
  case (Done r)
  then have "sched env (s1, ws @ [w]) (replicate 0 (Resume (length ws))) =
               (snd (exec env (Done r) s), ws @ [Returned (fst (exec env (Done r) s))])"
    by auto
  then show ?case by blast
next
  case (Read f)
  from Read.prems have "advance env (f s) s = (w, s1)"
    by simp
  from Read.IH [OF rangeI this] show ?case by simp
next
  case (Write g c)
  from Write.prems have "advance env c (g s) = (w, s1)"
    by simp
  from Write.IH [OF this] show ?case by simp
next
  case (Call ev k)
  from Call.prems have "advance env (k (outcome env (length (trace s)) ev)) (emit ev s) = (w, s1)"
    by simp
  from Call.IH [OF rangeI this] show ?case by simp
next
  case (Await ev k)
  let ?c = "k (outcome env (length (trace s)) ev)"
  obtain w' s' where adv: "advance env ?c (emit ev s) = (w', s')"
    by (cases "advance env ?c (emit ev s)")
  from Await.IH [OF rangeI adv] obtain n where
    n: "sched env (s', ws @ [w']) (replicate n (Resume (length ws))) =
          (snd (exec env ?c (emit ev s)), ws @ [Returned (fst (exec env ?c (emit ev s)))])"
    by blast
  from Await.prems have w: "w = Waiting (length (trace s)) ev k" "s1 = emit ev s"
    by auto
  have "sched env (s1, ws @ [w]) (replicate (Suc n) (Resume (length ws))) =
          (snd (exec env (Await ev k) s), ws @ [Returned (fst (exec env (Await ev k) s))])"
    using n adv by (simp add: w resume_last del: act.simps)
  then show ?case by blast
qed

lemma handle_is_schedule:
  "\<exists>acts ws'. sched env (s, ws) acts = (handle env s t, ws')"
proof -
  obtain w s1 where adv: "advance env (handler_co env t) s = (w, s1)"
    by (cases "advance env (handler_co env t) s")
  from advance_then_resume [OF adv, of ws] obtain n where
    "sched env (s1, ws @ [w]) (replicate n (Resume (length ws))) =
       (handle env s t, ws @ [Returned (fst (exec env (handler_co env t) s))])"
    by (auto simp: exec_handler_co)
  with adv have "sched env (s, ws) (Dispatch t # replicate n (Resume (length ws))) =
       (handle env s t, ws @ [Returned (fst (exec env (handler_co env t) s))])"
    by simp
  then show ?thesis by blast
qed

lemma run_is_schedule:
  "\<exists>acts ws'. sched env (s, ws) acts = (run env s ts, ws')"
proof (induction ts arbitrary: s ws)
  case Nil
  have "sched env (s, ws) [] = (run env s [], ws)"
    by simp
  then show ?case by blast
next
  case (Cons t ts)
  from handle_is_schedule obtain a1 ws1 where
    1: "sched env (s, ws) a1 = (handle env s t, ws1)"
    by blast
  from Cons.IH obtain a2 ws2 where
    2: "sched env (handle env s t, ws1) a2 = (run env (handle env s t) ts, ws2)"
    by blast
  from 1 2 have "sched env (s, ws) (a1 @ a2) = (run env s (t # ts), ws2)"
    by (simp add: sched_append)
  then show ?case by blast
qed

subsection \<open>The registry keeps its keys\<close>

lemma only_adds_bind_co:
  assumes "only_adds c" and "\<And>x. only_adds (f x)"
  shows "only_adds (bind_co c f)"
  using assms by (induction c) (auto split: sum.splits)

lemma only_adds_catch_co:
  assumes "only_adds c" and "\<And>e. only_adds (h e)"
  shows "only_adds (catch_co c h)"
  using assms by (induction c) (auto split: sum.splits)

lemma only_adds_co_await: "only_adds (co_await ev)"
  by (simp add: co_await_def)

lemma only_adds_co_call: "only_adds (co_call ev)"
  by (simp add: co_call_def)

lemma only_adds_create_chat_co: "only_adds (create_chat_co env th ttl)"
  by (auto simp: create_chat_co_def create_chat_register_def Let_def emit_simps
      intro!: only_adds_bind_co only_adds_co_await only_adds_co_call
      split: option.splits)

lemma only_adds_async_send_co: "only_adds (async_send_message_to_bot_co env ch txt)"
  by (auto simp: async_send_message_to_bot_co_def emit_simps
      intro!: only_adds_bind_co only_adds_catch_co only_adds_co_await)

lemma only_adds_spawn_thread_co: "only_adds (spawn_thread_co env msg init)"
  by (auto simp: spawn_thread_co_def Let_def
      intro!: only_adds_bind_co only_adds_co_await only_adds_create_chat_co
        only_adds_async_send_co
      split: option.splits)

lemma only_adds_on_message_co: "only_adds (on_message_co env m)"
  by (auto simp: on_message_co_def emit_simps
      intro!: only_adds_bind_co only_adds_create_chat_co only_adds_async_send_co
      split: channel.splits list.splits option.splits)

lemma only_adds_chat_co: "only_adds (chat_co env c init)"
  by (auto simp: chat_co_def Let_def emit_simps
      intro!: only_adds_bind_co only_adds_co_await only_adds_spawn_thread_co)

lemma only_adds_on_raw_reaction_add_co: "only_adds (on_raw_reaction_add_co env p)"
  by (auto simp: on_raw_reaction_add_co_def emit_simps
      intro!: only_adds_bind_co only_adds_catch_co only_adds_co_await only_adds_spawn_thread_co)

lemma only_adds_handler_co: "only_adds (handler_co env t)"
  by (cases t)
     (simp_all add: only_adds_chat_co only_adds_on_raw_reaction_add_co only_adds_on_message_co)

lemma advance_only_adds:
  assumes "only_adds c" and "advance env c s = (w, s')"
  shows "dom (active_threads s) \<subseteq> dom (active_threads s') \<and> only_adds_w w"
  using assms
proof (induction c arbitrary: s)
  case (Done r)
  then show ?case by auto
next
  case (Read f)
  from Read.prems have f: "only_adds (f s)" and a: "advance env (f s) s = (w, s')"
    by auto
  from Read.IH [OF rangeI f a] show ?case .
next
  case (Write g c)
  from Write.prems have g: "dom (active_threads s) \<subseteq> dom (active_threads (g s))"
    and c: "only_adds c" and a: "advance env c (g s) = (w, s')"
    by auto
  from Write.IH [OF c a] g show ?case by blast
next
  case (Call ev k)
  let ?r = "outcome env (length (trace s)) ev"
  from Call.prems have k: "only_adds (k ?r)" and a: "advance env (k ?r) (emit ev s) = (w, s')"
    by auto
  from Call.IH [OF rangeI k a] show ?case by (simp add: emit_simps)
next
  case (Await ev k)
  then show ?case by (auto simp: emit_simps)
qed

lemma act_only_adds:
  assumes "list_all only_adds_w ws" and "act env (s, ws) a = (s', ws')"
  shows "dom (active_threads s) \<subseteq> dom (active_threads s') \<and> list_all only_adds_w ws'"
proof (cases a)
  case (Dispatch t)
  obtain w s1 where adv: "advance env (handler_co env t) s = (w, s1)"
    by (cases "advance env (handler_co env t) s")
  from advance_only_adds [OF only_adds_handler_co adv] assms Dispatch adv
  show ?thesis by auto
next
  case (Resume i)
  show ?thesis
  proof (cases "i < length ws")
    case False
    with assms Resume show ?thesis by auto
  next
    case True
    show ?thesis
    proof (cases "ws ! i")
      case (Returned r)
      with assms Resume True show ?thesis by auto
    next
      case (Waiting pos ev k)
      obtain w s1 where adv: "advance env (k (outcome env pos ev)) s = (w, s1)"
        by (cases "advance env (k (outcome env pos ev)) s")
      from assms(1) True Waiting have "only_adds (k (outcome env pos ev))"
        by (auto simp: list_all_length)
      from advance_only_adds [OF this adv] have
        "dom (active_threads s) \<subseteq> dom (active_threads s1)" "only_adds_w w"
        by auto
      moreover from assms(2) Resume True Waiting adv have "s' = s1" "ws' = ws[i := w]"
        by auto
      ultimately show ?thesis
        using assms(1) True by (auto simp: list_all_length nth_list_update)
    qed
  qed
qed

lemma sched_only_adds:
  assumes "list_all only_adds_w ws" and "sched env (s, ws) acts = (s', ws')"
  shows "dom (active_threads s) \<subseteq> dom (active_threads s') \<and> list_all only_adds_w ws'"
  using assms
proof (induction acts arbitrary: s ws)
  case Nil
  then show ?case by auto
next
  case (Cons a acts)
  obtain s1 ws1 where a: "act env (s, ws) a = (s1, ws1)"
    by (cases "act env (s, ws) a")
  from act_only_adds [OF Cons.prems(1) a]
  have 1: "dom (active_threads s) \<subseteq> dom (active_threads s1)" "list_all only_adds_w ws1"
    by auto
  from Cons.prems(2) a have "sched env (s1, ws1) acts = (s', ws')"
    by simp
  from Cons.IH [OF 1(2) this] 1(1) show ?case by blast
qed

text \<open>
  C7, as stated, fails in its first half: the cog has no eviction. A \<^verbatim>\<open>Chat\<close> has no
  field for its last activity, the cog has no threshold, and no statement of the
  source deletes from \<^verbatim>\<open>_active_threads\<close>. In the example the session of thread 50
  dates from May 2023; a slash command handled when the clock reads May 2024 (the
  title card shows it) leaves that session registered.
\<close>

theorem idle_session_counterexample:
  "active_threads ex_state_registered 50 = Some ex_chat
   \<and> started_at ex_chat = ''2023-05-01T09:00:00''
   \<and> new_events ex_state_registered
        (handle (ex_env 2 never) ex_state_registered (SlashChat ex_ctx (Some ''hi''))) =
       [Log INFO (''Starting chat '' @ ''ann's chat with bot''),
        CtxSend (TitleCard ''ann'' ''ann's chat with bot'' ''2024-05-01 09:00:00''),
        CreateThread 80 ''bot#0001's chat with bot'',
        NewAssistant,
        ThreadSend 60 awaiting_text, Typing 60, ProcessInput 4 ''hi'', MessageEdit 5 ''reply'']
   \<and> active_threads
        (handle (ex_env 2 never) ex_state_registered (SlashChat ex_ctx (Some ''hi''))) 50
       = Some ex_chat"
  by (simp add: chat_def spawn_thread_def create_chat_sequential and_then_call
      async_send_message_to_bot_def create_chat_register_def create_chat_title_string_def
      emit_def Let_def new_events_def and_then_pair
      ex_state_registered_def ex_chat_def Chat_init_def ex_env_def ex_ctx_def never_def)

text \<open>
  C7, amended. No operation of the cog removes a thread from the registry. Whatever
  events arrive, however their handlers interleave at their \<^verbatim>\<open>await\<close>s, whatever the
  clock reads and whatever the collaborators do: a thread id that is a key of
  \<^verbatim>\<open>_active_threads\<close> at some point of a run is a key at every later point. There is no
  idle eviction; the registry is lost only when the process ends. In the example two
  messages for thread 50 race; the first task registers a session, the second, once
  resumed, stores its own under the same key, and the key is there throughout.
\<close>

theorem registered_thread_stays_registered:
  assumes "active_threads (fst (sched env (s, []) acts)) tid \<noteq> None"
  shows "active_threads (fst (sched env (s, []) (acts @ later))) tid \<noteq> None"
proof -
  obtain s1 ws1 where 1: "sched env (s, []) acts = (s1, ws1)"
    by (cases "sched env (s, []) acts")
  obtain s2 ws2 where 2: "sched env (s1, ws1) later = (s2, ws2)"
    by (cases "sched env (s1, ws1) later")
  from sched_only_adds [OF _ 1] have "list_all only_adds_w ws1"
    by simp
  from sched_only_adds [OF this 2] have "dom (active_threads s1) \<subseteq> dom (active_threads s2)"
    by simp
  moreover from assms 1 have "tid \<in> dom (active_threads s1)"
    by auto
  ultimately have "tid \<in> dom (active_threads s2)"
    by blast
  with 1 2 show ?thesis
    by (auto simp: sched_append)
qed

theorem registered_thread_stays_registered_witness:
  "map_option assistant
     (active_threads
        (fst (sched (ex_env 0 never) (ex_state, [])
                [Dispatch (MessageCreate (ex_message 9 ''hello'' ex_thread)),
                 Dispatch (MessageCreate (ex_message 9 ''hello'' ex_thread)),
                 Resume 0, Resume 0, Resume 0, Resume 0, Resume 0])) 50) = Some 1
   \<and> active_threads
        (fst (sched (ex_env 0 never) (ex_state, [])
                ([Dispatch (MessageCreate (ex_message 9 ''hello'' ex_thread)),
                  Dispatch (MessageCreate (ex_message 9 ''hello'' ex_thread)),
                  Resume 0, Resume 0, Resume 0, Resume 0, Resume 0]
                 @ [Resume 1, Resume 1, Resume 1, Resume 1, Resume 1]))) 50 \<noteq> None"
proof -
  let ?acts = "[Dispatch (MessageCreate (ex_message 9 ''hello'' ex_thread)),
                Dispatch (MessageCreate (ex_message 9 ''hello'' ex_thread)),
                Resume 0, Resume 0, Resume 0, Resume 0, Resume 0]"
  have a: "map_option assistant
     (active_threads (fst (sched (ex_env 0 never) (ex_state, []) ?acts)) 50) = Some 1"
    by (simp add: on_message_co_def create_chat_co_def async_send_message_to_bot_co_def
        co_await_def co_call_def ex_message_def ex_thread_def ex_env_def ex_state_def never_def
        outcome_def emit_def create_chat_register_def Chat_init_def Let_def)
  then have h: "active_threads (fst (sched (ex_env 0 never) (ex_state, []) ?acts)) 50 \<noteq> None"
    by auto
  from registered_thread_stays_registered [OF h] a show ?thesis
    by blast
qed

subsection \<open>Defaults of the Chat model\<close>

text \<open>
  C8. The specification asks for \<^verbatim>\<open>started_at\<close> and \<^verbatim>\<open>chat_id\<close> to be computed when a
  \<^verbatim>\<open>Chat\<close> is constructed. The source computes them in the class body, once. In the run
  below a message creates the session of thread 50 while the clock reads 2023 (the
  trace has 7 entries when \<^verbatim>\<open>Chat(...)\<close> runs), and a slash command creates the session
  of thread 60 after the clock has turned to 2024 (16 entries). The two sessions have
  different assistants and the same \<^verbatim>\<open>started_at\<close> and \<^verbatim>\<open>chat_id\<close>.
\<close>

theorem chat_defaults_shared:
  "active_threads
     (run (ex_env 12 never) ex_state
        [MessageCreate (ex_message 9 ''hello'' ex_thread), SlashChat ex_ctx None]) 50
     = Some \<lparr>title = ''ann's chat with bot'', thread = ex_thread, assistant = 1,
             started_at = ''2023-05-01T09:00:00'', chat_id = ''uuid-0'', messages = []\<rparr>
   \<and> active_threads
     (run (ex_env 12 never) ex_state
        [MessageCreate (ex_message 9 ''hello'' ex_thread), SlashChat ex_ctx None]) 60
     = Some \<lparr>title = ''bot#0001's chat with bot'',
             thread = \<lparr>thread_id = 60, owner_id = 1, message_count = 0\<rparr>, assistant = 15,
             started_at = ''2023-05-01T09:00:00'', chat_id = ''uuid-0'', messages = []\<rparr>
   \<and> now (ex_env 12 never) 7 = ''2023-05-01 09:00:00''
   \<and> now (ex_env 12 never) 16 = ''2024-05-01 09:00:00''"
  by (simp add: on_message_def chat_def spawn_thread_def create_chat_sequential and_then_call
      async_send_message_to_bot_def create_chat_register_def create_chat_title_string_def
      emit_def Let_def and_then_pair
      ex_state_def ex_message_def ex_thread_def Chat_init_def ex_env_def ex_ctx_def never_def)

subsection \<open>Two tasks creating the session of one thread\<close>

text \<open>
  C2. The specification asks for one factory run and one session however many events
  race for a thread. In \<^verbatim>\<open>_create_chat\<close> the membership test of line 171 and the store
  of line 196 are separated by \<^verbatim>\<open>await\<close>s when \<^verbatim>\<open>thread.message_count > 0\<close>. In the run
  below two tasks call \<^verbatim>\<open>_create_chat\<close> for thread 50, which is not registered and has
  three messages; the second starts while the first waits for \<^verbatim>\<open>thread.send\<close>. Both
  pass the test, two assistants are constructed, history is loaded twice, the tasks
  return different chats, and the registry ends with the second one.
\<close>

theorem concurrent_create_chat_duplicates:
  "fst (create_chat_race (ex_env 0 never) ex_state ex_thread ''ann's chat with bot''
          ''ann's chat with bot'')
     = (Inr (Chat_init (ex_env 0 never) ''ann's chat with bot'' ex_thread 0),
        Inr (Chat_init (ex_env 0 never) ''ann's chat with bot'' ex_thread 2))
   \<and> Chat_init (ex_env 0 never) ''ann's chat with bot'' ex_thread 0
       \<noteq> Chat_init (ex_env 0 never) ''ann's chat with bot'' ex_thread 2
   \<and> length (filter (\<lambda>ev. ev = NewAssistant)
        (trace (snd (create_chat_race (ex_env 0 never) ex_state ex_thread ''ann's chat with bot''
                       ''ann's chat with bot'')))) = 2
   \<and> length (filter is_LoadMemory
        (trace (snd (create_chat_race (ex_env 0 never) ex_state ex_thread ''ann's chat with bot''
                       ''ann's chat with bot'')))) = 2
   \<and> active_threads
        (snd (create_chat_race (ex_env 0 never) ex_state ex_thread ''ann's chat with bot''
                ''ann's chat with bot'')) 50
       = Some (Chat_init (ex_env 0 never) ''ann's chat with bot'' ex_thread 2)"
  by (simp add: create_chat_race_def create_chat_until_await_def resume_def
      create_chat_after_await_def call_def outcome_def and_then_pair
      create_chat_register_def emit_def Let_def
      ex_state_def ex_thread_def Chat_init_def ex_env_def never_def)

end
